theory Spec2Isabelle
  imports Main
begin

section \<open>Frames, messages and boxed list values\<close>

text \<open>
  \<^verbatim>\<open>type zFrame []byte\<close> and \<^verbatim>\<open>type zMsg [][]byte\<close>: a frame is a byte string, a
  message a sequence of frames. A nil slice and an empty slice are the same frame
  (\<^verbatim>\<open>bytes.Equal\<close> does not tell them apart), both are \<open>[]\<close>.
\<close>

type_synonym zFrame = string
type_synonym zMsg = "zFrame list"

text \<open>
  \<^verbatim>\<open>container/list\<close> stores \<^verbatim>\<open>interface{}\<close> values, so every element carries the
  dynamic type it was pushed with, and a type assertion \<^verbatim>\<open>x.(T)\<close> to a non-interface
  type panics unless that dynamic type is exactly \<open>T\<close>. The dynamic types that occur:
  \<^verbatim>\<open>[]byte\<close>, \<^verbatim>\<open>server.zFrame\<close>, and the defined types of package
  \<^verbatim>\<open>eventstore\<close> (such as \<^verbatim>\<open>eventstore.StreamName\<close>), given by name.
\<close>

datatype gotype = T_bytes | T_zFrame | T_eventstore string

type_synonym val = "gotype \<times> zFrame"

datatype panic = NilPointerDereference | InterfaceConversion | IndexOutOfRange

definition assert_type :: "gotype \<Rightarrow> val \<Rightarrow> panic + zFrame" where
  "assert_type t v = (if fst v = t then Inr (snd v) else Inl InterfaceConversion)"

section \<open>The event store backend\<close>

text \<open>
  Package \<^verbatim>\<open>eventstore\<close> is an external collaborator. Its operations are parameters
  of the model: \<open>Add\<close> returns the failure message or the generated id, \<open>Query\<close> the
  failure message or the events in the store's order. \<open>IdType\<close> is the declared type
  of the field \<^verbatim>\<open>Id\<close> of a stored event, which decides the dynamic type of the value
  pushed by \<^verbatim>\<open>response.PushBack(eventdata.Id)\<close>. The field \<^verbatim>\<open>Data\<close> is a
  \<^verbatim>\<open>[]byte\<close> (the literal \<^verbatim>\<open>eventstore.Event{..., data.(zFrame)}\<close> assigns a
  \<^verbatim>\<open>zFrame\<close> to it).
\<close>

record Event =
  Stream :: zFrame
  Data :: zFrame

record StoredEvent =
  Id :: zFrame
  Event :: Event

record QueryRequest =
  QStream :: zFrame
  FromId :: zFrame
  ToId :: zFrame

record EventStore =
  Add :: "Event \<Rightarrow> string + zFrame"
  Query :: "QueryRequest \<Rightarrow> string + StoredEvent list"
  IdType :: gotype

datatype backend_call = AddCall Event | QueryCall QueryRequest

section \<open>The request handler\<close>

text \<open>
  \<^verbatim>\<open>listToFrames\<close>: \<^verbatim>\<open>frames := make(zMsg, l.Len())\<close>, then for every element
  \<^verbatim>\<open>frames[i] = e.Value.(zFrame)\<close> with \<^verbatim>\<open>i := 0\<close> never advanced.
\<close>

fun listToFrames_loop :: "nat \<Rightarrow> val list \<Rightarrow> zMsg \<Rightarrow> panic + zMsg" where
  "listToFrames_loop i [] frames = Inr frames"
| "listToFrames_loop i (e # es) frames =
     (case assert_type T_zFrame e of
        Inl p \<Rightarrow> Inl p
      | Inr f \<Rightarrow>
          if i < length frames then listToFrames_loop i es (frames[i := f])
          else Inl IndexOutOfRange)"

definition listToFrames :: "val list \<Rightarrow> panic + zMsg" where
  "listToFrames l = listToFrames_loop 0 l (replicate (length l) [])"

definition copyList :: "val list \<Rightarrow> val list" where
  "copyList l = [] @ l"

text \<open>
  The scan of lines 348 to 354. \<^verbatim>\<open>parts.Front()\<close> is nil on an empty list, and both
  \<^verbatim>\<open>parts.Remove(nil)\<close> and \<^verbatim>\<open>nil.Value\<close> dereference it. The result is the pair
  \<open>(parts, resptemplate)\<close> at the \<^verbatim>\<open>break\<close>.
\<close>

fun handleRequest_scan :: "val list \<Rightarrow> val list \<Rightarrow> panic + (val list \<times> val list)" where
  "handleRequest_scan [] resptemplate = Inl NilPointerDereference"
| "handleRequest_scan (p # parts) resptemplate =
     (case parts of
        [] \<Rightarrow> Inl NilPointerDereference
      | q # _ \<Rightarrow>
          (case assert_type T_zFrame q of
             Inl e \<Rightarrow> Inl e
           | Inr f \<Rightarrow>
               if f = [] then Inr (parts, resptemplate @ [p])
               else handleRequest_scan parts (resptemplate @ [p])))"

text \<open>
  The block repeated at every reply: \<^verbatim>\<open>response := copyList(resptemplate)\<close>, the
  payload values pushed at the back, \<^verbatim>\<open>respchan <- listToFrames(response)\<close>.
\<close>

definition respond :: "val list \<Rightarrow> val list \<Rightarrow> panic + zMsg" where
  "respond resptemplate payload = listToFrames (copyList resptemplate @ payload)"

definition respond_error :: "val list \<Rightarrow> string \<Rightarrow> panic + zMsg" where
  "respond_error resptemplate errstr = respond resptemplate [(T_zFrame, ''ERROR '' @ errstr)]"

text \<open>What a finished handler has done: the messages sent on \<^verbatim>\<open>respchan\<close>, in order,
  and the backend calls made.\<close>

type_synonym handled = "zMsg list \<times> backend_call list"

definition reply :: "backend_call list \<Rightarrow> panic + zMsg \<Rightarrow> panic + handled" where
  "reply calls r = (case r of Inl p \<Rightarrow> Inl p | Inr m \<Rightarrow> Inr ([m], calls))"

fun query_events :: "gotype \<Rightarrow> val list \<Rightarrow> StoredEvent list \<Rightarrow> panic + zMsg list" where
  "query_events idT resptemplate [] =
     (case respond resptemplate [(T_zFrame, ''END'')] of
        Inl p \<Rightarrow> Inl p
      | Inr m \<Rightarrow> Inr [m])"
| "query_events idT resptemplate (eventdata # events) =
     (case respond resptemplate
             [(T_bytes, ''EVENT''), (idT, Id eventdata), (T_bytes, Data (Event eventdata))] of
        Inl p \<Rightarrow> Inl p
      | Inr m \<Rightarrow>
          (case query_events idT resptemplate events of
             Inl p \<Rightarrow> Inl p
           | Inr ms \<Rightarrow> Inr (m # ms)))"

definition handle_PUBLISH :: "EventStore \<Rightarrow> val list \<Rightarrow> val list \<Rightarrow> panic + handled" where
  "handle_PUBLISH estore parts resptemplate =
     (if length parts \<noteq> 2 then
        reply [] (respond_error resptemplate ''Wrong number of frames for PUBLISH.'')
      else
        (case assert_type (T_eventstore ''StreamName'') (parts ! 0) of
           Inl p \<Rightarrow> Inl p
         | Inr estream \<Rightarrow>
             (case assert_type T_zFrame (parts ! 1) of
                Inl p \<Rightarrow> Inl p
              | Inr data \<Rightarrow>
                  (let newevent = \<lparr>Stream = estream, Data = data\<rparr> in
                   case Add estore newevent of
                     Inl sErr \<Rightarrow> reply [AddCall newevent] (respond_error resptemplate sErr)
                   | Inr newId \<Rightarrow>
                       reply [AddCall newevent]
                         (respond resptemplate
                            [(T_zFrame, ''PUBLISHED''), (T_zFrame, newId)])))))"

definition handle_QUERY :: "EventStore \<Rightarrow> val list \<Rightarrow> val list \<Rightarrow> panic + handled" where
  "handle_QUERY estore parts resptemplate =
     (if length parts \<noteq> 3 then
        reply [] (respond_error resptemplate ''Wrong number of frames for QUERY.'')
      else
        (case assert_type T_zFrame (parts ! 0) of
           Inl p \<Rightarrow> Inl p
         | Inr estream \<Rightarrow>
             (case assert_type T_zFrame (parts ! 1) of
                Inl p \<Rightarrow> Inl p
              | Inr fromid \<Rightarrow>
                  (case assert_type T_zFrame (parts ! 2) of
                     Inl p \<Rightarrow> Inl p
                   | Inr toid \<Rightarrow>
                       (let req = \<lparr>QStream = estream, FromId = fromid, ToId = toid\<rparr> in
                        case Query estore req of
                          Inl sErr \<Rightarrow> reply [QueryCall req] (respond_error resptemplate sErr)
                        | Inr events \<Rightarrow>
                            (case query_events (IdType estore) resptemplate events of
                               Inl p \<Rightarrow> Inl p
                             | Inr ms \<Rightarrow> Inr (ms, [QueryCall req])))))))"

text \<open>
  The body of \<^verbatim>\<open>handleRequest\<close> from line 346 on, over the list \<open>parts\<close> built by
  lines 341 to 344.
\<close>

definition handleRequest_parts :: "EventStore \<Rightarrow> val list \<Rightarrow> panic + handled" where
  "handleRequest_parts estore parts0 =
     (case handleRequest_scan parts0 [] of
        Inl p \<Rightarrow> Inl p
      | Inr (parts, resptemplate) \<Rightarrow>
          if length parts = 0 then
            reply [] (respond_error resptemplate ''Incoming command was empty. Ignoring it.'')
          else
            (case assert_type T_zFrame (hd parts) of
               Inl p \<Rightarrow> Inl p
             | Inr command \<Rightarrow>
                 if command = ''PUBLISH'' then handle_PUBLISH estore (tl parts) resptemplate
                 else if command = ''QUERY'' then handle_QUERY estore (tl parts) resptemplate
                 else reply [] (respond_error resptemplate ''Unknown request type.'')))"

text \<open>
  \<^verbatim>\<open>for _, msgpart := range msg { parts.PushBack(msgpart) }\<close>: the elements of a
  \<^verbatim>\<open>zMsg\<close> are \<^verbatim>\<open>[]byte\<close>, and that is the dynamic type they are pushed with.
\<close>

definition handleRequest :: "EventStore \<Rightarrow> zMsg \<Rightarrow> panic + handled" where
  "handleRequest estore msg = handleRequest_parts estore (map (Pair T_bytes) msg)"

section \<open>The event publisher\<close>

text \<open>
  \<^verbatim>\<open>for stored := range(toPublish)\<close> receives until the channel is closed. What the
  successive receive operations yield is the input of the model: a stored event, or the
  closing of the channel. When the list is used up the publisher is still blocked in the
  next receive. \<open>send_err\<close> is what \<^verbatim>\<open>evpub.SendMultipart\<close> returns for a message;
  an error is logged and the loop goes on. The three-element slice \<open>msg\<close> is made once
  and overwritten in every iteration.
\<close>

datatype 'a received = Item 'a | ChanClosed

datatype goroutine = Blocked | Returned

record published =
  sent :: "zMsg list"
  logged :: "string list"
  state :: goroutine

fun publish_loop ::
  "(zMsg \<Rightarrow> string option) \<Rightarrow> zMsg \<Rightarrow> StoredEvent received list \<Rightarrow> published" where
  "publish_loop send_err msg [] = \<lparr>sent = [], logged = [], state = Blocked\<rparr>"
| "publish_loop send_err msg (ChanClosed # rest) = \<lparr>sent = [], logged = [], state = Returned\<rparr>"
| "publish_loop send_err msg (Item stored # rest) =
     (let msg0 = msg[0 := Stream (Event stored)];
          msg1 = msg0[1 := Id stored];
          msg2 = msg1[2 := Data (Event stored)];
          r = publish_loop send_err msg2 rest
      in r\<lparr>sent := msg2 # sent r,
            logged := (case send_err msg2 of None \<Rightarrow> [] | Some e \<Rightarrow> [e]) @ logged r\<rparr>)"

definition publishAllSavedEvents ::
  "(zMsg \<Rightarrow> string option) \<Rightarrow> StoredEvent received list \<Rightarrow> published" where
  "publishAllSavedEvents send_err toPublish = publish_loop send_err (replicate 3 []) toPublish"

text \<open>The events received before the channel is seen closed.\<close>

fun received_items :: "'a received list \<Rightarrow> 'a list" where
  "received_items [] = []"
| "received_items (ChanClosed # rest) = []"
| "received_items (Item x # rest) = x # received_items rest"

section \<open>The poll bridge\<close>

text \<open>
  One iteration of the loop of \<^verbatim>\<open>asyncPoll\<close>. \<^verbatim>\<open>notifier\<close> and \<^verbatim>\<open>stop\<close> are
  unbuffered, so a send on either blocks until another goroutine receives. What the
  iteration meets is its input:
  \<^item> \<open>poll_count\<close> and \<open>poll_err\<close>: what \<^verbatim>\<open>zmq.Poll\<close> returned;
  \<^item> \<open>notify_taken\<close>: whether a receiver ever takes the value sent at
    \<^verbatim>\<open>notifier <- zmqPollResult{err}\<close>;
  \<^item> \<open>stop_ready\<close>: whether the \<^verbatim>\<open>select\<close> finds a sender waiting on \<^verbatim>\<open>stop\<close>;
  \<^item> \<open>ack_taken\<close>: whether a receiver ever takes the value sent at \<^verbatim>\<open>stop <- true\<close>.
  The result lists the notifications handed over on \<^verbatim>\<open>notifier\<close>, the
  acknowledgements handed over on \<^verbatim>\<open>stop\<close>, and where the goroutine is afterwards: at
  the top of the loop again, returned, or blocked for good at one of the two sends (at
  the first with the notification it could not hand over).
\<close>

record zmqPollResult =
  err :: "string option"

datatype bridge_next = Rearm | Stopped | Blocked_notify zmqPollResult | Blocked_ack

record poll_cycle =
  notified :: "zmqPollResult list"
  acked :: "bool list"
  next_cycle :: bridge_next

record cycle_env =
  poll_count :: int
  poll_err :: "string option"
  notify_taken :: bool
  stop_ready :: bool
  ack_taken :: bool

text \<open>The \<^verbatim>\<open>select\<close> of lines 238 to 243, after the notifications \<open>n\<close> of this
  iteration have been handed over.\<close>

definition asyncPoll_select :: "cycle_env \<Rightarrow> zmqPollResult list \<Rightarrow> poll_cycle" where
  "asyncPoll_select c n =
     (if stop_ready c then
        (if ack_taken c then \<lparr>notified = n, acked = [True], next_cycle = Stopped\<rparr>
         else \<lparr>notified = n, acked = [], next_cycle = Blocked_ack\<rparr>)
      else \<lparr>notified = n, acked = [], next_cycle = Rearm\<rparr>)"

definition asyncPoll_cycle :: "cycle_env \<Rightarrow> poll_cycle" where
  "asyncPoll_cycle c =
     (if poll_count c > 0 \<or> poll_err c \<noteq> None then
        (if notify_taken c then asyncPoll_select c [\<lparr>err = poll_err c\<rparr>]
         else \<lparr>notified = [], acked = [],
               next_cycle = Blocked_notify \<lparr>err = poll_err c\<rparr>\<rparr>)
      else asyncPoll_select c [])"

text \<open>
  The loop itself, over what successive iterations meet: it goes round until an
  iteration does not come back to the top. \<open>polls\<close> counts the calls of \<^verbatim>\<open>zmq.Poll\<close>.
\<close>

record poll_run =
  notifications :: "zmqPollResult list"
  acks :: "bool list"
  polls :: nat

fun asyncPoll :: "cycle_env list \<Rightarrow> poll_run" where
  "asyncPoll [] = \<lparr>notifications = [], acks = [], polls = 0\<rparr>"
| "asyncPoll (c # rest) =
     (let r0 = asyncPoll_cycle c;
          r = (if next_cycle r0 = Rearm then asyncPoll rest
               else \<lparr>notifications = [], acks = [], polls = 0\<rparr>)
      in \<lparr>notifications = notified r0 @ notifications r, acks = acked r0 @ acks r,
          polls = Suc (polls r)\<rparr>)"

section \<open>Construction and teardown\<close>

text \<open>
  The ZeroMQ library is an external collaborator. \<open>zmq\<close> gives the error, if any, that
  each of its operations returns. \<^verbatim>\<open>New\<close> makes at most one socket of each type, so a
  socket is named by its type. The \<open>world\<close> records the sockets made and the sockets and
  context closed.
\<close>

datatype SocketType = ROUTER | PUB

datatype Context = Context

record zmq =
  NewSocket_err :: "SocketType \<Rightarrow> string option"
  Bind_err :: "SocketType \<Rightarrow> string \<Rightarrow> string option"
  Close_err :: "SocketType \<Rightarrow> string option"

record world =
  created :: "SocketType list"
  closed :: "SocketType list"
  context_closed :: bool

record InitParams =
  Store :: "EventStore option"
  CommandSocketZPath :: "string option"
  EvPubSocketZPath :: "string option"
  ZMQContext :: "Context option"

definition checkAllInitParamsSet :: "InitParams \<Rightarrow> string option" where
  "checkAllInitParamsSet p =
     (if Store p = None then Some ''Missing param: Store''
      else if ZMQContext p = None then Some ''Missing ZeroMQ context.''
      else if CommandSocketZPath p = None then Some ''Missing param: CommandSocketZPath''
      else if EvPubSocketZPath p = None then Some ''Missing param: EvPubSocketZPath''
      else None)"

text \<open>
  \<open>stopChan\<close> is the content of the buffered channel of capacity one; \<open>waiter\<close> is the
  counter of the \<^verbatim>\<open>sync.WaitGroup\<close>; the field \<^verbatim>\<open>context\<close> is written \<open>context'\<close>.
  \<open>runningMutex\<close> makes \<^verbatim>\<open>IsRunning\<close> and \<^verbatim>\<open>setRunningState\<close> atomic, which is what
  a function on the state is.
\<close>

record Server =
  params :: InitParams
  evpubsock :: "SocketType option"
  commandsock :: "SocketType option"
  context' :: "Context option"
  running :: bool
  stopChan :: "bool list"
  waiter :: nat

definition close_socket :: "zmq \<Rightarrow> SocketType \<Rightarrow> world \<Rightarrow> string option \<times> world" where
  "close_socket z s w =
     (case Close_err z s of
        Some e \<Rightarrow> (Some e, w)
      | None \<Rightarrow> (None, w\<lparr>closed := closed w @ [s]\<rparr>))"

definition Close_context :: "Server \<Rightarrow> world \<Rightarrow> string option \<times> Server \<times> world" where
  "Close_context v w =
     (if context' v \<noteq> None
      then (None, v\<lparr>context' := None\<rparr>, w\<lparr>context_closed := True\<rparr>)
      else (None, v, w))"

definition Close_commandsock :: "zmq \<Rightarrow> Server \<Rightarrow> world \<Rightarrow> string option \<times> Server \<times> world" where
  "Close_commandsock z v w =
     (case commandsock v of
        None \<Rightarrow> Close_context v w
      | Some s \<Rightarrow>
          (case close_socket z s w of
             (Some e, w') \<Rightarrow> (Some e, v, w')
           | (None, w') \<Rightarrow> Close_context (v\<lparr>commandsock := None\<rparr>) w'))"

definition Close :: "zmq \<Rightarrow> Server \<Rightarrow> world \<Rightarrow> string option \<times> Server \<times> world" where
  "Close z v w =
     (case evpubsock v of
        None \<Rightarrow> Close_commandsock z v w
      | Some s \<Rightarrow>
          (case close_socket z s w of
             (Some e, w') \<Rightarrow> (Some e, v, w')
           | (None, w') \<Rightarrow> Close_commandsock z (v\<lparr>evpubsock := None\<rparr>) w'))"

text \<open>
  \<^verbatim>\<open>New\<close> returns the pair \<^verbatim>\<open>(*Server, error)\<close>, each component nil (\<open>None\<close>) or
  not, and leaves the world it has changed. \<open>New_fail\<close> is a \<^verbatim>\<open>return nil, err\<close>
  below the \<^verbatim>\<open>defer\<close>: \<^verbatim>\<open>*allOkay\<close> is false, so the deferred function runs
  \<^verbatim>\<open>server.Close()\<close> and drops what it returns.
\<close>

type_synonym New_result = "(Server option \<times> string option) \<times> world"

definition New_fail :: "zmq \<Rightarrow> Server \<Rightarrow> world \<Rightarrow> string \<Rightarrow> New_result" where
  "New_fail z server w e = (case Close z server w of (_, _, w') \<Rightarrow> ((None, Some e), w'))"

definition New_evpubsock :: "zmq \<Rightarrow> InitParams \<Rightarrow> Server \<Rightarrow> world \<Rightarrow> New_result" where
  "New_evpubsock z p server w =
     (case NewSocket_err z PUB of
        Some e \<Rightarrow> New_fail z server w e
      | None \<Rightarrow>
          (let w1 = w\<lparr>created := created w @ [PUB]\<rparr>;
               server1 = server\<lparr>evpubsock := Some PUB\<rparr>
           in case Bind_err z PUB (the (EvPubSocketZPath p)) of
                Some binderr \<Rightarrow> New_fail z server1 w1 binderr
              | None \<Rightarrow> ((Some server1, None), w1)))"

definition New_commandsock :: "zmq \<Rightarrow> InitParams \<Rightarrow> Server \<Rightarrow> world \<Rightarrow> New_result" where
  "New_commandsock z p server w =
     (case NewSocket_err z ROUTER of
        Some e \<Rightarrow> New_fail z server w e
      | None \<Rightarrow>
          (let w1 = w\<lparr>created := created w @ [ROUTER]\<rparr>;
               server1 = server\<lparr>commandsock := Some ROUTER\<rparr>
           in case Bind_err z ROUTER (the (CommandSocketZPath p)) of
                Some e \<Rightarrow> New_fail z server1 w1 e
              | None \<Rightarrow> New_evpubsock z p server1 w1))"

definition New :: "zmq \<Rightarrow> InitParams option \<Rightarrow> world \<Rightarrow> New_result" where
  "New z params0 w =
     (case params0 of
        None \<Rightarrow> ((None, Some ''Missing init params''), w)
      | Some p \<Rightarrow>
          (case checkAllInitParamsSet p of
             Some e \<Rightarrow> ((None, Some e), w)
           | None \<Rightarrow>
               New_commandsock z p
                 \<lparr>params = p, evpubsock = None, commandsock = None,
                  context' = ZMQContext p, running = False, stopChan = [], waiter = 0\<rparr>
                 w))"

section \<open>Lifecycle\<close>

definition IsRunning :: "Server \<Rightarrow> bool" where
  "IsRunning v = running v"

definition setRunningState :: "bool \<Rightarrow> Server \<Rightarrow> string option \<times> Server" where
  "setRunningState newState v =
     (if running v = newState then (Some ''Already is in running state.'', v)
      else (None, v\<lparr>running := newState\<rparr>))"

text \<open>
  \<^verbatim>\<open>Start\<close> returns its error, leaves the server changed, and launches the goroutine
  that runs \<^verbatim>\<open>loopServer\<close> or does not: the third component counts the launches.
\<close>

definition Start :: "Server \<Rightarrow> string option \<times> Server \<times> nat" where
  "Start v =
     (let v1 = v\<lparr>waiter := waiter v + 1\<rparr> in
      case setRunningState True v1 of
        (Some e, v2) \<Rightarrow> (Some e, v2\<lparr>waiter := waiter v2 - 1\<rparr>, 0)
      | (None, v2) \<Rightarrow> (None, v2, 1))"

text \<open>
  \<^verbatim>\<open>v.waiter.Wait()\<close> blocks while the counter is positive.
\<close>

definition Wait :: "Server \<Rightarrow> goroutine" where
  "Wait v = (if waiter v = 0 then Returned else Blocked)"

text \<open>
  \<^verbatim>\<open>Stop\<close> in two parts. \<open>Stop_signal\<close> is lines 99 to 107, which never block: the
  error returned there, or \<open>None\<close> when the \<^verbatim>\<open>select\<close> has put \<^verbatim>\<open>true\<close> into
  \<open>stopChan\<close> and the caller goes on to \<^verbatim>\<open>v.Wait()\<close>. A send on a buffered channel
  goes through when the buffer has room, and the \<^verbatim>\<open>default\<close> case is taken otherwise.
  \<open>Stop_wait\<close> is lines 108 to 115: \<open>None\<close> while the caller is blocked in
  \<^verbatim>\<open>v.Wait()\<close>, and what \<^verbatim>\<open>Stop\<close> returns once it is not.
\<close>

definition Stop_signal :: "Server \<Rightarrow> string option \<times> Server" where
  "Stop_signal v =
     (if \<not> IsRunning v then (Some ''Server not running.'', v)
      else if length (stopChan v) < 1 then (None, v\<lparr>stopChan := stopChan v @ [True]\<rparr>)
      else (Some ''Stop already signalled.'', v))"

definition Stop_wait :: "Server \<Rightarrow> string option option" where
  "Stop_wait v =
     (if Wait v = Blocked then None
      else if IsRunning v then Some (Some ''Signalled stopped, but never stopped.'')
      else Some None)"

text \<open>
  What the goroutine launched by \<^verbatim>\<open>Start\<close> does to the server: \<^verbatim>\<open>loopServer\<close>
  takes the value out of \<open>stopChan\<close> at \<^verbatim>\<open>case <- stop\<close> (possible only when there is
  one), and when \<^verbatim>\<open>loopServer\<close> has returned the deferred calls run
  \<^verbatim>\<open>v.setRunningState(false)\<close> and then \<^verbatim>\<open>v.waiter.Done()\<close>.
\<close>

definition loop_recv_stop :: "Server \<Rightarrow> Server option" where
  "loop_recv_stop v =
     (case stopChan v of [] \<Rightarrow> None | b # rest \<Rightarrow> Some (v\<lparr>stopChan := rest\<rparr>))"

definition loop_exit :: "Server \<Rightarrow> Server" where
  "loop_exit v = (let v1 = snd (setRunningState False v) in v1\<lparr>waiter := waiter v1 - 1\<rparr>)"

text \<open>
  The calls a client can make other than \<^verbatim>\<open>Start\<close>, each with the state it leaves.
  \<^verbatim>\<open>IsRunning\<close> and \<^verbatim>\<open>Wait\<close> change nothing; for \<^verbatim>\<open>Stop\<close> the state is the one
  after lines 99 to 107.
\<close>

datatype api_call = Call_IsRunning | Call_Wait | Call_Stop | Call_Close

fun api_step :: "zmq \<Rightarrow> Server \<times> world \<Rightarrow> api_call \<Rightarrow> Server \<times> world" where
  "api_step z (v, w) Call_IsRunning = (v, w)"
| "api_step z (v, w) Call_Wait = (v, w)"
| "api_step z (v, w) Call_Stop = (snd (Stop_signal v), w)"
| "api_step z (v, w) Call_Close = snd (Close z v w)"

section \<open>The message loop and its goroutines\<close>

text \<open>
  The goroutines that take part in shutdown, each by where it stands.
  \<^item> \<^verbatim>\<open>loopServer\<close>: at the \<^verbatim>\<open>select\<close> of line 283 (\<open>L_select\<close>); returned at line
    300 and inside the deferred \<^verbatim>\<open>stopPoller\<close>, at \<^verbatim>\<open>cancelChan <- true\<close>
    (\<open>L_cancel_send\<close>) or at \<^verbatim>\<open><-cancelChan\<close> (\<open>L_cancel_recv\<close>); or past
    \<^verbatim>\<open>close(pubchan)\<close>, \<^verbatim>\<open>setRunningState(false)\<close> and \<^verbatim>\<open>waiter.Done()\<close>
    (\<open>L_exited\<close>).
  \<^item> the \<^verbatim>\<open>asyncPoll\<close> goroutines, all alike, counted by position: inside
    \<^verbatim>\<open>zmq.Poll\<close> (\<open>polling\<close>), at \<^verbatim>\<open>notifier <- zmqPollResult{err}\<close>
    (\<open>notifying\<close>), at the \<^verbatim>\<open>select\<close> of line 238 (\<open>selecting\<close>), at
    \<^verbatim>\<open>stop <- true\<close> (\<open>acking\<close>).
  \<^item> \<open>responding\<close>: the responses that handlers are waiting to hand over at
    \<^verbatim>\<open>respchan <- ...\<close>; what a handler does before that is left to the model
    of \<^verbatim>\<open>handleRequest\<close>.
  \<^item> the caller of \<^verbatim>\<open>Stop\<close>: before the call, blocked in \<^verbatim>\<open>v.Wait()\<close>, or returned.
  \<^verbatim>\<open>pollchan\<close>, \<^verbatim>\<open>respchan\<close> and \<^verbatim>\<open>pollCancel\<close> are unbuffered: a send and a
  receive happen together, as one step of both goroutines.
\<close>

datatype loop_pc = L_select | L_cancel_send | L_cancel_recv | L_exited

datatype caller_pc = C_before | C_waiting | C_returned "string option"

record system =
  srv :: Server
  loop :: loop_pc
  polling :: nat
  notifying :: nat
  selecting :: nat
  acking :: nat
  responding :: nat
  caller :: caller_pc

inductive step :: "system \<Rightarrow> system \<Rightarrow> bool" where
  poll_ready: \<comment> \<open>\<^verbatim>\<open>zmq.Poll\<close> returns with \<^verbatim>\<open>count > 0 || err != nil\<close>\<close>
    "polling s > 0 \<Longrightarrow>
     step s (s\<lparr>polling := polling s - 1, notifying := notifying s + 1\<rparr>)"
| poll_timeout: \<comment> \<open>\<^verbatim>\<open>zmq.Poll\<close> returns \<^verbatim>\<open>0, nil\<close>\<close>
    "polling s > 0 \<Longrightarrow>
     step s (s\<lparr>polling := polling s - 1, selecting := selecting s + 1\<rparr>)"
| notify: \<comment> \<open>\<^verbatim>\<open>case res := <-pollchan\<close>: a handler with \<open>n\<close> responses may be started,
    and line 293 starts one more \<^verbatim>\<open>asyncPoll\<close>\<close>
    "notifying s > 0 \<Longrightarrow> loop s = L_select \<Longrightarrow>
     step s (s\<lparr>notifying := notifying s - 1, selecting := selecting s + 1,
               polling := polling s + 1, responding := responding s + n\<rparr>)"
| respond: \<comment> \<open>\<^verbatim>\<open>case frames := <-respchan\<close>\<close>
    "responding s > 0 \<Longrightarrow> loop s = L_select \<Longrightarrow>
     step s (s\<lparr>responding := responding s - 1\<rparr>)"
| loop_stop: \<comment> \<open>\<^verbatim>\<open>case <- stop\<close>, then \<^verbatim>\<open>return\<close> into the deferred \<^verbatim>\<open>stopPoller\<close>\<close>
    "loop s = L_select \<Longrightarrow> loop_recv_stop (srv s) = Some v \<Longrightarrow>
     step s (s\<lparr>srv := v, loop := L_cancel_send\<rparr>)"
| select_default: \<comment> \<open>nobody is sending on \<^verbatim>\<open>stop\<close>: \<^verbatim>\<open>default\<close>, next iteration\<close>
    "selecting s > 0 \<Longrightarrow> loop s \<noteq> L_cancel_send \<Longrightarrow> acking s = 0 \<Longrightarrow>
     step s (s\<lparr>selecting := selecting s - 1, polling := polling s + 1\<rparr>)"
| cancel: \<comment> \<open>\<^verbatim>\<open>cancelChan <- true\<close> of \<^verbatim>\<open>stopPoller\<close> meets \<^verbatim>\<open>case <-stop\<close>\<close>
    "selecting s > 0 \<Longrightarrow> loop s = L_cancel_send \<Longrightarrow>
     step s (s\<lparr>selecting := selecting s - 1, acking := acking s + 1, loop := L_cancel_recv\<rparr>)"
| ack_loop: \<comment> \<open>\<^verbatim>\<open>stop <- true\<close> meets \<^verbatim>\<open><-cancelChan\<close>; the poller returns, the
    deferred calls of \<^verbatim>\<open>loopServer\<close> and of the goroutine of \<^verbatim>\<open>Start\<close> finish\<close>
    "acking s > 0 \<Longrightarrow> loop s = L_cancel_recv \<Longrightarrow>
     step s (s\<lparr>acking := acking s - 1, loop := L_exited, srv := loop_exit (srv s)\<rparr>)"
| ack_poller: \<comment> \<open>\<^verbatim>\<open>stop <- true\<close> of one poller meets \<^verbatim>\<open>case <-stop\<close> of another\<close>
    "acking s > 0 \<Longrightarrow> selecting s > 0 \<Longrightarrow>
     step s (s\<lparr>selecting := selecting s - 1\<rparr>)"
| stop_call: \<comment> \<open>\<^verbatim>\<open>Stop\<close>, lines 99 to 107\<close>
    "caller s = C_before \<Longrightarrow> Stop_signal (srv s) = (r, v) \<Longrightarrow>
     step s (s\<lparr>srv := v,
               caller := (case r of None \<Rightarrow> C_waiting | Some e \<Rightarrow> C_returned (Some e))\<rparr>)"
| stop_return: \<comment> \<open>\<^verbatim>\<open>Stop\<close>, lines 108 to 115\<close>
    "caller s = C_waiting \<Longrightarrow> Stop_wait (srv s) = Some r \<Longrightarrow>
     step s (s\<lparr>caller := C_returned r\<rparr>)"

text \<open>
  The system when \<^verbatim>\<open>Start\<close> has returned and \<^verbatim>\<open>loopServer\<close> has reached its loop:
  one poller inside \<^verbatim>\<open>zmq.Poll\<close>, nothing else under way.
\<close>

definition started :: "Server \<Rightarrow> system" where
  "started v =
     \<lparr>srv = v, loop = L_select, polling = 1, notifying = 0, selecting = 0, acking = 0,
      responding = 0, caller = C_before\<rparr>"

section \<open>Concrete inputs\<close>

text \<open>
  A world in which nothing has been made yet, a full set of parameters, and three
  behaviours of the ZeroMQ library: everything succeeds; binding the publish socket
  fails; binding the publish socket fails and closing it fails too.
\<close>

definition fresh_world :: world where
  "fresh_world = \<lparr>created = [], closed = [], context_closed = False\<rparr>"

definition p_ok :: InitParams where
  "p_ok =
     \<lparr>Store = Some \<lparr>Add = (\<lambda>e. Inr ''1''), Query = (\<lambda>q. Inr []), IdType = T_bytes\<rparr>,
      CommandSocketZPath = Some ''tcp://127.0.0.1:9002'',
      EvPubSocketZPath = Some ''tcp://127.0.0.1:9003'',
      ZMQContext = Some Context\<rparr>"

definition z_ok :: zmq where
  "z_ok = \<lparr>NewSocket_err = (\<lambda>t. None), Bind_err = (\<lambda>t path. None), Close_err = (\<lambda>t. None)\<rparr>"

definition z_pub_bind_fails :: zmq where
  "z_pub_bind_fails =
     z_ok\<lparr>Bind_err := (\<lambda>t path. if t = PUB then Some ''Address already in use'' else None)\<rparr>"

definition z_pub_stuck :: zmq where
  "z_pub_stuck =
     z_pub_bind_fails
       \<lparr>Close_err := (\<lambda>t. if t = PUB then Some ''Socket operation on non-socket'' else None)\<rparr>"

text \<open>
  What an iteration of the poll bridge can meet: a timeout with no stop signal, a timeout
  with the stop signal waiting, a ready socket whose notification is received, a ready
  socket whose notification nobody receives, and a failed poll.
\<close>

definition timeout_quiet :: cycle_env where
  "timeout_quiet =
     \<lparr>poll_count = 0, poll_err = None, notify_taken = True, stop_ready = False,
      ack_taken = True\<rparr>"

definition timeout_stop :: cycle_env where
  "timeout_stop =
     \<lparr>poll_count = 0, poll_err = None, notify_taken = True, stop_ready = True,
      ack_taken = True\<rparr>"

definition ready_taken :: cycle_env where
  "ready_taken =
     \<lparr>poll_count = 1, poll_err = None, notify_taken = True, stop_ready = False,
      ack_taken = True\<rparr>"

definition ready_untaken :: cycle_env where
  "ready_untaken =
     \<lparr>poll_count = 1, poll_err = None, notify_taken = False, stop_ready = True,
      ack_taken = True\<rparr>"

definition error_taken :: cycle_env where
  "error_taken =
     \<lparr>poll_count = - 1, poll_err = Some ''Interrupted system call'', notify_taken = True,
      stop_ready = False, ack_taken = True\<rparr>"

text \<open>The server that \<^verbatim>\<open>New\<close> builds from these, and the same server after
  \<^verbatim>\<open>Start\<close>.\<close>

definition server_ok :: Server where
  "server_ok =
     \<lparr>params = p_ok, evpubsock = Some PUB, commandsock = Some ROUTER, context' = Some Context,
      running = False, stopChan = [], waiter = 0\<rparr>"

definition server_running :: Server where
  "server_running = fst (snd (Start server_ok))"

text \<open>
  A state of the running system: \<^verbatim>\<open>Stop\<close> is blocked in \<^verbatim>\<open>v.Wait()\<close>,
  \<^verbatim>\<open>loopServer\<close> has taken the stop signal and stands at \<^verbatim>\<open>cancelChan <- true\<close>, and
  the one poller stands at \<^verbatim>\<open>notifier <- zmqPollResult{err}\<close>.
\<close>

definition stuck :: system where
  "stuck =
     \<lparr>srv = server_running, loop = L_cancel_send, polling = 0, notifying = 1, selecting = 0,
      acking = 0, responding = 0, caller = C_waiting\<rparr>"

section \<open>Facts about the request handler\<close>

text \<open>On a list of \<^verbatim>\<open>zFrame\<close> values \<^verbatim>\<open>listToFrames\<close> keeps the last frame, at
  index 0, and leaves every other slot empty.\<close>

lemma listToFrames_loop_zFrames:
  "frames \<noteq> [] \<Longrightarrow>
   listToFrames_loop 0 (map (Pair T_zFrame) l) frames =
     Inr (if l = [] then frames else frames[0 := last l])"
proof (induction l arbitrary: frames)
  case Nil
  then show ?case by simp
next
  case (Cons f l)
  then show ?case by (simp add: assert_type_def)
qed

lemma listToFrames_zFrames:
  "l \<noteq> [] \<Longrightarrow>
   listToFrames (map (Pair T_zFrame) l) = Inr (last l # replicate (length l - 1) [])"
proof -
  assume ne: "l \<noteq> []"
  then obtain n where n: "length l = Suc n" by (cases l) auto
  have "replicate (length l) ([]::zFrame) \<noteq> []" using n by simp
  then have "listToFrames (map (Pair T_zFrame) l) = Inr ((replicate (length l) [])[0 := last l])"
    unfolding listToFrames_def using listToFrames_loop_zFrames[of "replicate (length l) []" l] ne
    by simp
  then show ?thesis using n by simp
qed

text \<open>When the scan ends at its \<^verbatim>\<open>break\<close>, the empty frame it has found is still the
  front of \<open>parts\<close>.\<close>

lemma handleRequest_scan_front:
  "handleRequest_scan ps t = Inr (parts, tmpl) \<Longrightarrow> \<exists>rest. parts = (T_zFrame, []) # rest"
proof (induction ps t rule: handleRequest_scan.induct)
  case (1 t)
  then show ?case by simp
next
  case (2 p ps t)
  show ?case
  proof (cases ps)
    case Nil
    with 2 show ?thesis by simp
  next
    case (Cons q qs)
    show ?thesis
    proof (cases "fst q = T_zFrame")
      case False
      with 2 Cons show ?thesis by (simp add: assert_type_def)
    next
      case True
      show ?thesis
      proof (cases "snd q = []")
        case e: True
        with 2(2) Cons True have "parts = q # qs" by (simp add: assert_type_def)
        moreover have "q = (T_zFrame, [])" using True e by (cases q) simp
        ultimately show ?thesis by simp
      next
        case ne: False
        with 2(2) Cons True have "handleRequest_scan ps (t @ [p]) = Inr (parts, tmpl)"
          by (simp add: assert_type_def)
        with 2(1)[OF Cons, of "snd q"] Cons True ne show ?thesis by (simp add: assert_type_def)
      qed
    qed
  qed
qed

text \<open>Without an empty frame the scan runs off the end of the list, whatever the frames
  are, even when every value is a \<^verbatim>\<open>zFrame\<close>.\<close>

lemma handleRequest_scan_no_separator:
  "[] \<notin> set msg \<Longrightarrow>
   handleRequest_scan (map (Pair T_zFrame) msg) t = Inl NilPointerDereference"
proof (induction msg arbitrary: t)
  case Nil
  then show ?case by simp
next
  case (Cons f msg)
  show ?case
  proof (cases msg)
    case Nil
    then show ?thesis by simp
  next
    case (Cons g gs)
    from Cons.prems Cons have g: "g \<noteq> []" and rest: "[] \<notin> set msg" by auto
    have "handleRequest_scan (map (Pair T_zFrame) (f # msg)) t =
            handleRequest_scan (map (Pair T_zFrame) msg) (t @ [(T_zFrame, f)])"
      using Cons g by (simp add: assert_type_def)
    also have "\<dots> = Inl NilPointerDereference" using Cons.IH [OF rest] .
    finally show ?thesis .
  qed
qed

text \<open>On a received message the values are \<^verbatim>\<open>[]byte\<close>: the first type assertion
  panics, unless the nil dereference comes first.\<close>

lemma handleRequest_scan_bytes:
  "handleRequest_scan (map (Pair T_bytes) msg) t =
     Inl (if length msg < 2 then NilPointerDereference else InterfaceConversion)"
proof (cases msg)
  case Nil
  then show ?thesis by simp
next
  case (Cons f fs)
  then show ?thesis by (cases fs) (simp_all add: assert_type_def)
qed

lemma handleRequest_always_panics:
  "handleRequest estore msg =
     Inl (if length msg < 2 then NilPointerDereference else InterfaceConversion)"
  by (simp add: handleRequest_def handleRequest_parts_def handleRequest_scan_bytes)

text \<open>Whatever the values in the list, the command read after the scan is the empty
  frame, so the handler answers \<^verbatim>\<open>Unknown request type.\<close> and never reaches the
  backend.\<close>

lemma handleRequest_parts_unknown:
  assumes "handleRequest_scan ps [] = Inr (parts, tmpl)"
  shows "handleRequest_parts estore ps = reply [] (respond_error tmpl ''Unknown request type.'')"
proof -
  obtain rest where "parts = (T_zFrame, []) # rest"
    using assms handleRequest_scan_front by blast
  with assms show ?thesis
    by (simp add: handleRequest_parts_def assert_type_def)
qed

lemma handleRequest_parts_no_backend_call:
  assumes "handleRequest_parts estore ps = Inr (ms, calls)"
  shows "calls = []"
proof (cases "handleRequest_scan ps []")
  case (Inl p)
  with assms show ?thesis by (simp add: handleRequest_parts_def)
next
  case (Inr r)
  obtain parts tmpl where "r = (parts, tmpl)" by (cases r)
  with Inr have "handleRequest_parts estore ps =
      reply [] (respond_error tmpl ''Unknown request type.'')"
    using handleRequest_parts_unknown by simp
  with assms show ?thesis
    by (cases "respond_error tmpl ''Unknown request type.''") (simp_all add: reply_def)
qed

text \<open>The branches themselves, were they reached. A value that is not a \<^verbatim>\<open>zFrame\<close>
  makes \<^verbatim>\<open>listToFrames\<close> panic, and \<^verbatim>\<open>response.PushBack([]byte("EVENT"))\<close> pushes
  one, so no \<^verbatim>\<open>EVENT\<close> response can be built; and the stream frame of a
  \<^verbatim>\<open>PUBLISH\<close> is asserted to be an \<^verbatim>\<open>eventstore.StreamName\<close>, which no frame of a
  message is.\<close>

lemma listToFrames_loop_not_zFrame:
  "\<exists>v \<in> set l. fst v \<noteq> T_zFrame \<Longrightarrow> frames \<noteq> [] \<Longrightarrow>
   listToFrames_loop 0 l frames = Inl InterfaceConversion"
proof (induction l arbitrary: frames)
  case Nil
  then show ?case by simp
next
  case (Cons e es)
  show ?case
  proof (cases "fst e = T_zFrame")
    case False
    then show ?thesis by (simp add: assert_type_def)
  next
    case True
    with Cons.prems have "\<exists>v \<in> set es. fst v \<noteq> T_zFrame" by auto
    moreover have "frames[0 := snd e] \<noteq> []" using Cons.prems by simp
    ultimately have "listToFrames_loop 0 es (frames[0 := snd e]) = Inl InterfaceConversion"
      by (rule Cons.IH)
    with True Cons.prems show ?thesis by (simp add: assert_type_def)
  qed
qed

lemma listToFrames_not_zFrame:
  assumes "\<exists>v \<in> set l. fst v \<noteq> T_zFrame"
  shows "listToFrames l = Inl InterfaceConversion"
proof -
  from assms have "l \<noteq> []" by auto
  then have "replicate (length l) ([]::zFrame) \<noteq> []" by simp
  with assms show ?thesis
    unfolding listToFrames_def by (rule listToFrames_loop_not_zFrame)
qed

lemma query_events_EVENT_panics:
  "query_events idT resptemplate (eventdata # events) = Inl InterfaceConversion"
proof -
  have "respond resptemplate
          [(T_bytes, ''EVENT''), (idT, Id eventdata), (T_bytes, Data (Event eventdata))] =
        Inl InterfaceConversion"
    unfolding respond_def by (rule listToFrames_not_zFrame) simp
  then show ?thesis by simp
qed

lemma handle_PUBLISH_stream_panics:
  "fst estream \<noteq> T_eventstore ''StreamName'' \<Longrightarrow>
   handle_PUBLISH estore [estream, data] resptemplate = Inl InterfaceConversion"
  by (simp add: handle_PUBLISH_def assert_type_def)

lemma scan_PUBLISH:
  "handleRequest_scan (map (Pair T_zFrame) [''id'', [], ''PUBLISH'', ''orders'', ''payload-A'']) [] =
     Inr (map (Pair T_zFrame) [[], ''PUBLISH'', ''orders'', ''payload-A''], [(T_zFrame, ''id'')])"
  by (simp add: assert_type_def)

lemma scan_QUERY:
  "handleRequest_scan (map (Pair T_zFrame) [''id'', [], ''QUERY'', ''orders'', [], []]) [] =
     Inr (map (Pair T_zFrame) [[], ''QUERY'', ''orders'', [], []], [(T_zFrame, ''id'')])"
  by (simp add: assert_type_def)

lemma scan_FOO:
  "handleRequest_scan (map (Pair T_zFrame) [''id1'', ''id2'', [], ''FOO'']) [] =
     Inr (map (Pair T_zFrame) [[], ''FOO''], map (Pair T_zFrame) [''id1'', ''id2''])"
  by (simp add: assert_type_def)

lemma unknown_reply_1:
  "reply [] (respond_error [(T_zFrame, ''id'')] ''Unknown request type.'') =
     Inr ([[''ERROR Unknown request type.'', []]], [])"
  by (simp add: reply_def respond_error_def respond_def copyList_def listToFrames_def
      assert_type_def)

lemma unknown_reply_2:
  "reply [] (respond_error (map (Pair T_zFrame) [''id1'', ''id2'']) ''Unknown request type.'') =
     Inr ([[''ERROR Unknown request type.'', [], []]], [])"
  by (simp add: reply_def respond_error_def respond_def copyList_def listToFrames_def
      assert_type_def)

section \<open>The claims about the request handler\<close>

text \<open>
  Claim C1: every response of the handler starts with the envelope frames of its request,
  all of them, unchanged and in order. The code does not do that. For the request
  \<open>[id1, id2, empty, FOO]\<close> the response list holds \<open>id1\<close>, \<open>id2\<close> and the error frame, and
  \<^verbatim>\<open>listToFrames\<close> turns such a list into the error frame followed by two empty frames:
  it stores every frame at index 0. That is the response of the handler when the values
  in its list are \<^verbatim>\<open>zFrame\<close>s. On the message as received the scan panics at its
  first type assertion and there is no response at all.
\<close>

theorem listToFrames_drops_envelope:
  "listToFrames [(T_zFrame, ''id1''), (T_zFrame, ''id2''),
                 (T_zFrame, ''ERROR Unknown request type.'')] =
     Inr [''ERROR Unknown request type.'', [], []]
   \<and> handleRequest_parts estore (map (Pair T_zFrame) [''id1'', ''id2'', [], ''FOO'']) =
       Inr ([[''ERROR Unknown request type.'', [], []]], [])
   \<and> handleRequest estore [''id1'', ''id2'', [], ''FOO''] = Inl InterfaceConversion"
proof -
  have "listToFrames (map (Pair T_zFrame) [''id1'', ''id2'', ''ERROR Unknown request type.'']) =
          Inr [''ERROR Unknown request type.'', [], []]"
    by (subst listToFrames_zFrames) simp_all
  moreover have "handleRequest_parts estore (map (Pair T_zFrame) [''id1'', ''id2'', [], ''FOO'']) =
       Inr ([[''ERROR Unknown request type.'', [], []]], [])"
    using handleRequest_parts_unknown [OF scan_FOO] unknown_reply_2 by simp
  moreover have "handleRequest estore [''id1'', ''id2'', [], ''FOO''] = Inl InterfaceConversion"
    by (simp add: handleRequest_always_panics)
  ultimately show ?thesis by simp
qed

text \<open>
  Claim C2: a message without an empty frame gets one response ending in
  \<^verbatim>\<open>ERROR Incoming command was empty. Ignoring it.\<close>, the scan stops at the end of the
  message, and nothing crashes. The code panics instead: on the empty message at
  \<^verbatim>\<open>parts.Remove(parts.Front())\<close>, on a message of one frame at
  \<^verbatim>\<open>parts.Front().Value\<close>, and on a longer one, even with every value a
  \<^verbatim>\<open>zFrame\<close>, when the scan has taken the last frame.
\<close>

theorem handleRequest_no_separator_panics:
  "handleRequest estore [] = Inl NilPointerDereference
   \<and> handleRequest estore [''id''] = Inl NilPointerDereference
   \<and> handleRequest_parts estore (map (Pair T_zFrame) [''id'', ''PUBLISH'', ''orders'', ''payload-A'']) =
       Inl NilPointerDereference"
proof -
  have "handleRequest_scan (map (Pair T_zFrame) [''id'', ''PUBLISH'', ''orders'', ''payload-A'']) [] =
          Inl NilPointerDereference"
    by (rule handleRequest_scan_no_separator) simp
  then show ?thesis
    by (simp add: handleRequest_always_panics handleRequest_parts_def)
qed

text \<open>
  Claim C3: a request whose command is \<^verbatim>\<open>PUBLISH\<close>, with two more frames, has the
  event appended by the backend and is answered \<^verbatim>\<open>PUBLISHED\<close> and the new id. The code
  never gets to the \<^verbatim>\<open>PUBLISH\<close> case. On the request of scenario 1 of the
  specification it panics at the first type assertion; and with every value a
  \<^verbatim>\<open>zFrame\<close> the scan leaves the empty frame at the front of \<open>parts\<close>, the command
  read is that empty frame, and the answer is \<^verbatim>\<open>ERROR Unknown request type.\<close>, with no
  call of the backend.
\<close>

theorem handleRequest_PUBLISH_not_dispatched:
  "handleRequest estore [''id'', [], ''PUBLISH'', ''orders'', ''payload-A''] =
     Inl InterfaceConversion
   \<and> handleRequest_parts estore
        (map (Pair T_zFrame) [''id'', [], ''PUBLISH'', ''orders'', ''payload-A'']) =
       Inr ([[''ERROR Unknown request type.'', []]], [])"
  using handleRequest_parts_unknown [OF scan_PUBLISH] unknown_reply_1
  by (simp add: handleRequest_always_panics)

text \<open>
  Claim C4: a \<^verbatim>\<open>QUERY\<close> request with three argument frames is answered by one
  \<^verbatim>\<open>EVENT\<close> response for each event and a final \<^verbatim>\<open>END\<close>, or by one \<^verbatim>\<open>ERROR\<close>
  when the backend fails. The code never gets to the \<^verbatim>\<open>QUERY\<close> case, for the same
  reasons: on the request of scenario 2 of the specification it panics, and with every
  value a \<^verbatim>\<open>zFrame\<close> it answers \<^verbatim>\<open>ERROR Unknown request type.\<close> without a call of
  the backend.
\<close>

theorem handleRequest_QUERY_not_dispatched:
  "handleRequest estore [''id'', [], ''QUERY'', ''orders'', [], []] = Inl InterfaceConversion
   \<and> handleRequest_parts estore
        (map (Pair T_zFrame) [''id'', [], ''QUERY'', ''orders'', [], []]) =
       Inr ([[''ERROR Unknown request type.'', []]], [])"
  using handleRequest_parts_unknown [OF scan_QUERY] unknown_reply_1
  by (simp add: handleRequest_always_panics)

section \<open>The claim about the event publisher\<close>

lemma publish_loop_sent:
  "length msg = 3 \<Longrightarrow>
   sent (publish_loop send_err msg toPublish) =
     map (\<lambda>stored. [Stream (Event stored), Id stored, Data (Event stored)])
       (received_items toPublish)"
proof (induction toPublish arbitrary: msg)
  case Nil
  then show ?case by simp
next
  case (Cons x xs)
  show ?case
  proof (cases x)
    case ChanClosed
    then show ?thesis by simp
  next
    case (Item stored)
    obtain a b c where msg: "msg = [a, b, c]"
      using Cons.prems by (auto simp: length_Suc_conv numeral_3_eq_3)
    have "sent (publish_loop send_err [Stream (Event stored), Id stored, Data (Event stored)] xs) =
            map (\<lambda>stored. [Stream (Event stored), Id stored, Data (Event stored)])
              (received_items xs)"
      by (rule Cons.IH) simp
    then show ?thesis using Item msg by (simp add: Let_def)
  qed
qed

lemma publish_loop_state:
  "(state (publish_loop send_err msg toPublish) = Returned) = (ChanClosed \<in> set toPublish)"
proof (induction toPublish arbitrary: msg)
  case Nil
  then show ?case by simp
next
  case (Cons x xs)
  then show ?case by (cases x) (simp_all add: Let_def)
qed

text \<open>
  Claim C8: for each stored event received from the channel the publisher sends one
  message of the three frames stream, id, data, in the order of receipt, and it returns
  exactly when the channel is closed. In the model: the messages sent are, in order, the
  three frames of each event received before the channel is seen closed, whatever the
  sends return; and the publisher has returned if and only if a receive has met the
  closed channel.
\<close>

theorem publishAllSavedEvents_fifo:
  "sent (publishAllSavedEvents send_err toPublish) =
     map (\<lambda>stored. [Stream (Event stored), Id stored, Data (Event stored)])
       (received_items toPublish)
   \<and> (state (publishAllSavedEvents send_err toPublish) = Returned) =
       (ChanClosed \<in> set toPublish)"
  using publish_loop_sent [of "replicate 3 []" send_err toPublish]
    publish_loop_state [of send_err "replicate 3 []" toPublish]
  by (simp add: publishAllSavedEvents_def)

theorem publishAllSavedEvents_fifo_witness:
  "sent (publishAllSavedEvents (\<lambda>m. Some ''send failed'')
           [Item \<lparr>Id = ''1'', Event = \<lparr>Stream = ''orders'', Data = ''a''\<rparr>\<rparr>,
            Item \<lparr>Id = ''2'', Event = \<lparr>Stream = ''orders'', Data = ''b''\<rparr>\<rparr>,
            ChanClosed]) =
     [[''orders'', ''1'', ''a''], [''orders'', ''2'', ''b'']]
   \<and> state (publishAllSavedEvents (\<lambda>m. Some ''send failed'')
           [Item \<lparr>Id = ''1'', Event = \<lparr>Stream = ''orders'', Data = ''a''\<rparr>\<rparr>,
            Item \<lparr>Id = ''2'', Event = \<lparr>Stream = ''orders'', Data = ''b''\<rparr>\<rparr>,
            ChanClosed]) = Returned
   \<and> state (publishAllSavedEvents (\<lambda>m. None)
           [Item \<lparr>Id = ''1'', Event = \<lparr>Stream = ''orders'', Data = ''a''\<rparr>\<rparr>]) = Blocked"
  using publishAllSavedEvents_fifo [of "\<lambda>m. Some ''send failed''"
      "[Item \<lparr>Id = ''1'', Event = \<lparr>Stream = ''orders'', Data = ''a''\<rparr>\<rparr>,
        Item \<lparr>Id = ''2'', Event = \<lparr>Stream = ''orders'', Data = ''b''\<rparr>\<rparr>,
        ChanClosed]"]
    publishAllSavedEvents_fifo [of "\<lambda>m. None"
      "[Item \<lparr>Id = ''1'', Event = \<lparr>Stream = ''orders'', Data = ''a''\<rparr>\<rparr>]"]
  by (cases "state (publishAllSavedEvents (\<lambda>m. None)
           [Item \<lparr>Id = ''1'', Event = \<lparr>Stream = ''orders'', Data = ''a''\<rparr>\<rparr>])") simp_all

section \<open>The claim about the poll bridge\<close>

text \<open>
  Claim C9, as the code has it. An iteration reaches the send of a notification if and
  only if the ready count is positive or the poll returned an error; the notification,
  one, carrying that error, is handed over when the other side receives it, and until
  then the bridge stays at the send. Past that, the bridge goes on to the next wait
  when no stop signal is waiting; when one is, it sends the acknowledgement and returns
  once that is received. So after a pure timeout with no stop signal waiting it has sent
  nothing, acknowledged nothing, and polls again.
\<close>

theorem asyncPoll_cycle_notifies:
  "notified (asyncPoll_cycle c) =
     (if (0 < poll_count c \<or> poll_err c \<noteq> None) \<and> notify_taken c
      then [\<lparr>err = poll_err c\<rparr>] else [])
   \<and> next_cycle (asyncPoll_cycle c) =
     (if (0 < poll_count c \<or> poll_err c \<noteq> None) \<and> \<not> notify_taken c
        then Blocked_notify \<lparr>err = poll_err c\<rparr>
      else if \<not> stop_ready c then Rearm
      else if ack_taken c then Stopped
      else Blocked_ack)
   \<and> acked (asyncPoll_cycle c) =
     (if next_cycle (asyncPoll_cycle c) = Stopped then [True] else [])
   \<and> (poll_count c \<le> 0 \<and> poll_err c = None \<and> \<not> stop_ready c \<longrightarrow>
        asyncPoll_cycle c = \<lparr>notified = [], acked = [], next_cycle = Rearm\<rparr>
        \<and> notifications (asyncPoll (c # rest)) = notifications (asyncPoll rest)
        \<and> acks (asyncPoll (c # rest)) = acks (asyncPoll rest)
        \<and> polls (asyncPoll (c # rest)) = Suc (polls (asyncPoll rest)))"
  by (simp add: asyncPoll_cycle_def asyncPoll_select_def Let_def)

theorem asyncPoll_cycle_notifies_witness:
  "asyncPoll_cycle timeout_quiet = \<lparr>notified = [], acked = [], next_cycle = Rearm\<rparr>
   \<and> asyncPoll_cycle ready_taken =
       \<lparr>notified = [\<lparr>err = None\<rparr>], acked = [], next_cycle = Rearm\<rparr>
   \<and> notified (asyncPoll_cycle error_taken) = [\<lparr>err = Some ''Interrupted system call''\<rparr>]
   \<and> notifications (asyncPoll [timeout_quiet, ready_taken]) = [\<lparr>err = None\<rparr>]
   \<and> polls (asyncPoll [timeout_quiet, ready_taken]) = 2"
proof -
  have h: "poll_count timeout_quiet \<le> 0 \<and> poll_err timeout_quiet = None
             \<and> \<not> stop_ready timeout_quiet"
    by (simp add: timeout_quiet_def)
  have a: "asyncPoll_cycle timeout_quiet = \<lparr>notified = [], acked = [], next_cycle = Rearm\<rparr>"
    and b: "notifications (asyncPoll [timeout_quiet, ready_taken]) =
              notifications (asyncPoll [ready_taken])"
    and c: "polls (asyncPoll [timeout_quiet, ready_taken]) =
              Suc (polls (asyncPoll [ready_taken]))"
    using asyncPoll_cycle_notifies [of timeout_quiet "[ready_taken]"] h by blast+
  have d: "notified (asyncPoll_cycle ready_taken) = [\<lparr>err = None\<rparr>]"
    and e: "next_cycle (asyncPoll_cycle ready_taken) = Rearm"
    and f: "acked (asyncPoll_cycle ready_taken) = []"
    using asyncPoll_cycle_notifies [of ready_taken "[]"] by (simp_all add: ready_taken_def)
  have g: "notified (asyncPoll_cycle error_taken) =
             [\<lparr>err = Some ''Interrupted system call''\<rparr>]"
    using asyncPoll_cycle_notifies [of error_taken "[]"] by (simp add: error_taken_def)
  have k: "asyncPoll_cycle ready_taken =
             \<lparr>notified = [\<lparr>err = None\<rparr>], acked = [], next_cycle = Rearm\<rparr>"
    using d e f by (cases "asyncPoll_cycle ready_taken") simp
  have "notifications (asyncPoll [ready_taken]) = [\<lparr>err = None\<rparr>]"
    "polls (asyncPoll [ready_taken]) = 1"
    using k by (simp_all add: Let_def)
  with a b c g k show ?thesis by simp
qed

text \<open>
  Claim C9 as stated has the bridge go on to the next wait after every pure timeout, and
  a notification emitted whenever the ready count is positive. After a timeout with the
  stop signal waiting the bridge acknowledges it and \<^verbatim>\<open>asyncPoll\<close> returns, with
  one call of \<^verbatim>\<open>zmq.Poll\<close> made although more were to come. And with a ready socket
  but nobody receiving on \<^verbatim>\<open>notifier\<close>, nothing is handed over: the bridge stays at
  the send, and does not get to the stop signal that is waiting.
\<close>

theorem asyncPoll_timeout_with_stop:
  "asyncPoll_cycle timeout_stop = \<lparr>notified = [], acked = [True], next_cycle = Stopped\<rparr>
   \<and> polls (asyncPoll [timeout_stop, ready_taken]) = 1
   \<and> asyncPoll_cycle ready_untaken =
       \<lparr>notified = [], acked = [], next_cycle = Blocked_notify \<lparr>err = None\<rparr>\<rparr>"
  by (simp add: asyncPoll_cycle_def asyncPoll_select_def Let_def timeout_stop_def
      ready_untaken_def)

section \<open>The claims about construction\<close>

lemma Close_context_running: "running (fst (snd (Close_context v w))) = running v"
  by (simp add: Close_context_def)

lemma Close_commandsock_running: "running (fst (snd (Close_commandsock z v w))) = running v"
  by (simp add: Close_commandsock_def Close_context_running split: option.splits prod.splits)

lemma Close_running: "running (fst (snd (Close z v w))) = running v"
  by (simp add: Close_def Close_commandsock_running split: option.splits prod.splits)

lemma api_step_not_running:
  "\<not> running (fst s) \<Longrightarrow> \<not> running (fst (api_step z s c))"
  by (cases s; cases c) (simp_all add: Stop_signal_def IsRunning_def Close_running)

lemma api_steps_not_running:
  "\<not> running (fst s) \<Longrightarrow> \<not> running (fst (foldl (api_step z) s calls))"
  by (induction calls arbitrary: s) (simp_all add: api_step_not_running)

lemma New_evpubsock_cases:
  "(\<exists>e. fst (New_evpubsock z p v w) = (None, Some e)) \<or>
   fst (New_evpubsock z p v w) = (Some (v\<lparr>evpubsock := Some PUB\<rparr>), None)"
  by (simp add: New_evpubsock_def New_fail_def Let_def split: option.splits prod.splits)

lemma New_commandsock_cases:
  "(\<exists>e. fst (New_commandsock z p v w) = (None, Some e)) \<or>
   fst (New_commandsock z p v w) =
     (Some (v\<lparr>commandsock := Some ROUTER, evpubsock := Some PUB\<rparr>), None)"
  using New_evpubsock_cases [of z p "v\<lparr>commandsock := Some ROUTER\<rparr>"]
  by (simp add: New_commandsock_def New_fail_def Let_def split: option.splits prod.splits)

lemma New_cases:
  "(\<exists>e. fst (New z params0 w) = (None, Some e)) \<or>
   (\<exists>p. params0 = Some p \<and> checkAllInitParamsSet p = None \<and>
     fst (New z params0 w) =
       (Some \<lparr>params = p, evpubsock = Some PUB, commandsock = Some ROUTER,
              context' = ZMQContext p, running = False, stopChan = [], waiter = 0\<rparr>, None))"
proof (cases params0)
  case None
  then show ?thesis by (simp add: New_def)
next
  case (Some p)
  show ?thesis
  proof (cases "checkAllInitParamsSet p")
    case (Some e)
    with \<open>params0 = Some p\<close> show ?thesis by (simp add: New_def)
  next
    case None
    with \<open>params0 = Some p\<close> show ?thesis
      using New_commandsock_cases [of z p "\<lparr>params = p, evpubsock = None, commandsock = None,
                  context' = ZMQContext p, running = False, stopChan = [], waiter = 0\<rparr>" w]
      by (simp add: New_def)
  qed
qed

lemma checkAllInitParamsSet_context:
  "checkAllInitParamsSet p = None \<Longrightarrow> ZMQContext p \<noteq> None"
  by (auto simp: checkAllInitParamsSet_def split: if_splits)

lemma Close_all:
  assumes "\<And>s. Close_err z s = None"
  shows "Close z v w =
     (None, v\<lparr>evpubsock := None, commandsock := None, context' := None\<rparr>,
      w\<lparr>closed := closed w @ (case evpubsock v of None \<Rightarrow> [] | Some s \<Rightarrow> [s])
                               @ (case commandsock v of None \<Rightarrow> [] | Some s \<Rightarrow> [s]),
        context_closed := (context_closed w \<or> context' v \<noteq> None)\<rparr>)"
  by (cases "evpubsock v"; cases "commandsock v"; cases "context' v")
     (simp_all add: Close_def Close_commandsock_def Close_context_def close_socket_def assms)

text \<open>
  Claim C6, as the code has it: when \<^verbatim>\<open>New\<close> returns an error it returns no server,
  and, provided that closing a socket does not fail, every socket made during the call
  has been closed before it returns.
\<close>

theorem New_error_tears_down:
  assumes "snd (fst (New z params0 fresh_world)) \<noteq> None" and "\<forall>s. Close_err z s = None"
  shows "fst (fst (New z params0 fresh_world)) = None \<and>
         set (created (snd (New z params0 fresh_world))) \<subseteq>
           set (closed (snd (New z params0 fresh_world)))"
proof -
  have c: "\<And>v w. Close z v w =
     (None, v\<lparr>evpubsock := None, commandsock := None, context' := None\<rparr>,
      w\<lparr>closed := closed w @ (case evpubsock v of None \<Rightarrow> [] | Some s \<Rightarrow> [s])
                               @ (case commandsock v of None \<Rightarrow> [] | Some s \<Rightarrow> [s]),
        context_closed := (context_closed w \<or> context' v \<noteq> None)\<rparr>)"
    using assms(2) by (intro Close_all) simp
  show ?thesis
    using assms(1)
    by (auto simp: New_def New_commandsock_def New_evpubsock_def New_fail_def c fresh_world_def
        Let_def split: option.splits)
qed

theorem New_error_tears_down_witness:
  "snd (fst (New z_pub_bind_fails (Some p_ok) fresh_world)) = Some ''Address already in use''
   \<and> (\<forall>s. Close_err z_pub_bind_fails s = None)
   \<and> fst (fst (New z_pub_bind_fails (Some p_ok) fresh_world)) = None
   \<and> created (snd (New z_pub_bind_fails (Some p_ok) fresh_world)) = [ROUTER, PUB]
   \<and> set (created (snd (New z_pub_bind_fails (Some p_ok) fresh_world))) \<subseteq>
       set (closed (snd (New z_pub_bind_fails (Some p_ok) fresh_world)))"
proof -
  have r: "New z_pub_bind_fails (Some p_ok) fresh_world =
     ((None, Some ''Address already in use''),
      \<lparr>created = [ROUTER, PUB], closed = [PUB, ROUTER], context_closed = True\<rparr>)"
    by (simp add: New_def New_commandsock_def New_evpubsock_def New_fail_def Close_def
        Close_commandsock_def Close_context_def close_socket_def checkAllInitParamsSet_def
        z_pub_bind_fails_def z_ok_def p_ok_def fresh_world_def)
  have h1: "snd (fst (New z_pub_bind_fails (Some p_ok) fresh_world)) \<noteq> None"
    using r by simp
  have h2: "\<forall>s. Close_err z_pub_bind_fails s = None"
    by (simp add: z_pub_bind_fails_def z_ok_def)
  show ?thesis using New_error_tears_down [OF h1 h2] h2 r by simp
qed

text \<open>
  Claim C6 as stated has every socket closed whenever \<^verbatim>\<open>New\<close> returns an error. When
  binding the publish socket fails and closing that socket fails as well,
  \<^verbatim>\<open>Close\<close> returns at its first error: \<^verbatim>\<open>New\<close> returns the bind error with both
  sockets made and none closed.
\<close>

theorem New_error_leaves_socket_open:
  "New z_pub_stuck (Some p_ok) fresh_world =
     ((None, Some ''Address already in use''),
      \<lparr>created = [ROUTER, PUB], closed = [], context_closed = False\<rparr>)"
  by (simp add: New_def New_commandsock_def New_evpubsock_def New_fail_def Close_def
      close_socket_def checkAllInitParamsSet_def z_pub_stuck_def z_pub_bind_fails_def z_ok_def
      p_ok_def fresh_world_def)

lemma New_fail_eq: "New_fail z v w e = ((None, Some e), snd (snd (Close z v w)))"
  by (simp add: New_fail_def split: prod.splits)

lemma New_success_iff:
  "(fst (fst (New z params0 w)) = Some v) =
     (\<exists>p. params0 = Some p \<and> checkAllInitParamsSet p = None
        \<and> NewSocket_err z ROUTER = None
        \<and> Bind_err z ROUTER (the (CommandSocketZPath p)) = None
        \<and> NewSocket_err z PUB = None
        \<and> Bind_err z PUB (the (EvPubSocketZPath p)) = None
        \<and> v = \<lparr>params = p, evpubsock = Some PUB, commandsock = Some ROUTER,
                 context' = ZMQContext p, running = False, stopChan = [], waiter = 0\<rparr>)"
  by (cases params0)
     (auto simp: New_def New_commandsock_def New_evpubsock_def New_fail_eq Let_def
       split: option.splits)

lemma New_success_world:
  "fst (fst (New z params0 w)) = Some v \<Longrightarrow>
   snd (New z params0 w) = w\<lparr>created := created w @ [ROUTER, PUB]\<rparr>"
  by (cases params0)
     (auto simp: New_def New_commandsock_def New_evpubsock_def New_fail_eq Let_def
       split: option.splits)

text \<open>
  Claim C10: \<^verbatim>\<open>New\<close> returns a server or an error, never both and never neither. It
  returns a server exactly when all parameters are set and making and binding each of
  the two sockets returns no error. That server holds the parameters, the command
  socket, the publish socket and the context of the parameters; the two sockets have
  been made, in that order, and nothing has been closed; the server is not running, and
  stays not running through any calls of \<^verbatim>\<open>IsRunning\<close>, \<^verbatim>\<open>Wait\<close>,
  \<^verbatim>\<open>Stop\<close> and \<^verbatim>\<open>Close\<close>, that is until \<^verbatim>\<open>Start\<close> is called.
\<close>

theorem New_server_xor_error:
  "(fst (fst (New z params0 w)) = None) = (snd (fst (New z params0 w)) \<noteq> None)
   \<and> (fst (fst (New z params0 w)) \<noteq> None) =
       (\<exists>p. params0 = Some p \<and> checkAllInitParamsSet p = None
          \<and> NewSocket_err z ROUTER = None
          \<and> Bind_err z ROUTER (the (CommandSocketZPath p)) = None
          \<and> NewSocket_err z PUB = None
          \<and> Bind_err z PUB (the (EvPubSocketZPath p)) = None)
   \<and> (\<forall>v. fst (fst (New z params0 w)) = Some v \<longrightarrow>
         v = \<lparr>params = the params0, evpubsock = Some PUB, commandsock = Some ROUTER,
              context' = ZMQContext (the params0), running = False, stopChan = [],
              waiter = 0\<rparr>
         \<and> snd (New z params0 w) = w\<lparr>created := created w @ [ROUTER, PUB]\<rparr>
         \<and> \<not> IsRunning v \<and> commandsock v \<noteq> None \<and> evpubsock v \<noteq> None \<and> context' v \<noteq> None
         \<and> (\<forall>calls.
               \<not> IsRunning (fst (foldl (api_step z) (v, snd (New z params0 w)) calls))))"
proof (intro conjI allI impI)
  show "(fst (fst (New z params0 w)) = None) = (snd (fst (New z params0 w)) \<noteq> None)"
    using New_cases [of z params0 w] by auto
  show "(fst (fst (New z params0 w)) \<noteq> None) =
       (\<exists>p. params0 = Some p \<and> checkAllInitParamsSet p = None
          \<and> NewSocket_err z ROUTER = None
          \<and> Bind_err z ROUTER (the (CommandSocketZPath p)) = None
          \<and> NewSocket_err z PUB = None
          \<and> Bind_err z PUB (the (EvPubSocketZPath p)) = None)"
    using New_success_iff [of z params0 w] by (cases "fst (fst (New z params0 w))") auto
next
  fix v assume s: "fst (fst (New z params0 w)) = Some v"
  then obtain p where p: "params0 = Some p" "checkAllInitParamsSet p = None"
    and v: "v = \<lparr>params = p, evpubsock = Some PUB, commandsock = Some ROUTER,
                 context' = ZMQContext p, running = False, stopChan = [], waiter = 0\<rparr>"
    using New_success_iff [of z params0 w v] by blast
  show "v = \<lparr>params = the params0, evpubsock = Some PUB, commandsock = Some ROUTER,
              context' = ZMQContext (the params0), running = False, stopChan = [],
              waiter = 0\<rparr>"
    using p v by simp
  show "snd (New z params0 w) = w\<lparr>created := created w @ [ROUTER, PUB]\<rparr>"
    using s by (rule New_success_world)
  show "\<not> IsRunning v" using v by (simp add: IsRunning_def)
  show "commandsock v \<noteq> None" using v by simp
  show "evpubsock v \<noteq> None" using v by simp
  show "context' v \<noteq> None" using v checkAllInitParamsSet_context [OF p(2)] by simp
  fix calls
  show "\<not> IsRunning (fst (foldl (api_step z) (v, snd (New z params0 w)) calls))"
    using v by (simp add: IsRunning_def api_steps_not_running)
qed

theorem New_server_xor_error_witness:
  "fst (New z_ok (Some p_ok) fresh_world) = (Some server_ok, None)
   \<and> snd (New z_ok (Some p_ok) fresh_world) =
       \<lparr>created = [ROUTER, PUB], closed = [], context_closed = False\<rparr>
   \<and> \<not> IsRunning server_ok
   \<and> \<not> IsRunning (fst (foldl (api_step z_ok) (server_ok, snd (New z_ok (Some p_ok) fresh_world))
                          [Call_Stop, Call_IsRunning, Call_Close, Call_Wait]))
   \<and> fst (fst (New z_pub_bind_fails (Some p_ok) fresh_world)) = None"
proof -
  have r: "fst (New z_ok (Some p_ok) fresh_world) = (Some server_ok, None)"
    by (simp add: New_def New_commandsock_def New_evpubsock_def checkAllInitParamsSet_def
        z_ok_def p_ok_def server_ok_def)
  then have s: "fst (fst (New z_ok (Some p_ok) fresh_world)) = Some server_ok" by simp
  have t: "\<forall>v. fst (fst (New z_ok (Some p_ok) fresh_world)) = Some v \<longrightarrow>
         snd (New z_ok (Some p_ok) fresh_world) = fresh_world\<lparr>created := created fresh_world @ [ROUTER, PUB]\<rparr>
         \<and> \<not> IsRunning v
         \<and> (\<forall>calls.
               \<not> IsRunning (fst (foldl (api_step z_ok) (v, snd (New z_ok (Some p_ok) fresh_world)) calls)))"
    using New_server_xor_error [of z_ok "Some p_ok" fresh_world] by blast
  from t s have w: "snd (New z_ok (Some p_ok) fresh_world) = fresh_world\<lparr>created := created fresh_world @ [ROUTER, PUB]\<rparr>"
    and n: "\<not> IsRunning server_ok"
    and c: "\<forall>calls. \<not> IsRunning (fst (foldl (api_step z_ok) (server_ok, snd (New z_ok (Some p_ok) fresh_world)) calls))"
    by blast+
  have b: "Bind_err z_pub_bind_fails PUB (the (EvPubSocketZPath p_ok)) \<noteq> None"
    by (simp add: z_pub_bind_fails_def z_ok_def)
  have f: "fst (fst (New z_pub_bind_fails (Some p_ok) fresh_world)) = None"
    using New_server_xor_error [of z_pub_bind_fails "Some p_ok" fresh_world] b by auto
  have w': "snd (New z_ok (Some p_ok) fresh_world) = \<lparr>created = [ROUTER, PUB], closed = [], context_closed = False\<rparr>"
    using w by (simp add: fresh_world_def)
  from r w' n c f show ?thesis by blast
qed

section \<open>The claims about the lifecycle\<close>

lemma server_running_eq:
  "server_running = server_ok\<lparr>running := True, waiter := 1\<rparr>"
  by (simp add: server_running_def Start_def setRunningState_def server_ok_def)

text \<open>
  What the lifecycle calls do, state by state. \<^verbatim>\<open>Start\<close> on a running server returns
  the error, leaves the server as it was and launches nothing. \<^verbatim>\<open>Stop\<close> on a server
  that is not running returns the error and changes nothing. \<^verbatim>\<open>Stop\<close> on a running
  server whose stop channel still holds a signal returns \<^verbatim>\<open>Stop already signalled.\<close>
  at once and changes nothing. \<^verbatim>\<open>Stop\<close> on a running server whose stop channel is
  empty puts the signal there and waits, for as long as the counter of the wait group is
  positive: with one loop running, it is still blocked when the loop has taken the
  signal, and returns without error once the loop has exited.
\<close>

theorem lifecycle_misuse_errors:
  "(running v \<longrightarrow> Start v = (Some ''Already is in running state.'', v, 0))
   \<and> (\<not> running v \<longrightarrow> Stop_signal v = (Some ''Server not running.'', v))
   \<and> (running v \<and> stopChan v \<noteq> [] \<longrightarrow>
        Stop_signal v = (Some ''Stop already signalled.'', v))
   \<and> (running v \<and> stopChan v = [] \<longrightarrow> Stop_signal v = (None, v\<lparr>stopChan := [True]\<rparr>))
   \<and> (Stop_wait v = None) = (0 < waiter v)
   \<and> (running v \<and> stopChan v = [] \<and> waiter v = 1 \<longrightarrow>
        Stop_wait (the (loop_recv_stop (snd (Stop_signal v)))) = None
        \<and> Stop_wait (loop_exit (the (loop_recv_stop (snd (Stop_signal v))))) = Some None)"
  by (simp add: Start_def setRunningState_def Stop_signal_def IsRunning_def Stop_wait_def
      Wait_def loop_recv_stop_def loop_exit_def)

theorem lifecycle_misuse_errors_witness:
  "running server_running \<and> stopChan server_running = [] \<and> waiter server_running = 1
   \<and> Start server_running = (Some ''Already is in running state.'', server_running, 0)
   \<and> \<not> running server_ok
   \<and> Stop_signal server_ok = (Some ''Server not running.'', server_ok)
   \<and> Stop_signal server_running = (None, server_running\<lparr>stopChan := [True]\<rparr>)
   \<and> Stop_signal (server_running\<lparr>stopChan := [True]\<rparr>) =
       (Some ''Stop already signalled.'', server_running\<lparr>stopChan := [True]\<rparr>)
   \<and> Stop_wait (server_running\<lparr>stopChan := [True]\<rparr>) = None
   \<and> Stop_wait (loop_exit (the (loop_recv_stop (snd (Stop_signal server_running))))) = Some None"
proof -
  have h: "running server_running" "stopChan server_running = []" "waiter server_running = 1"
    "\<not> running server_ok"
    by (simp_all add: server_running_eq server_ok_def)
  have h2: "running (server_running\<lparr>stopChan := [True]\<rparr>)"
    "stopChan (server_running\<lparr>stopChan := [True]\<rparr>) \<noteq> []"
    "0 < waiter (server_running\<lparr>stopChan := [True]\<rparr>)"
    using h by simp_all
  have a: "Start server_running = (Some ''Already is in running state.'', server_running, 0)"
    using lifecycle_misuse_errors [of server_running] h by blast
  have b: "Stop_signal server_ok = (Some ''Server not running.'', server_ok)"
    using lifecycle_misuse_errors [of server_ok] h by blast
  have c: "Stop_signal server_running = (None, server_running\<lparr>stopChan := [True]\<rparr>)"
    using lifecycle_misuse_errors [of server_running] h by blast
  have d: "Stop_signal (server_running\<lparr>stopChan := [True]\<rparr>) =
       (Some ''Stop already signalled.'', server_running\<lparr>stopChan := [True]\<rparr>)"
    using lifecycle_misuse_errors [of "server_running\<lparr>stopChan := [True]\<rparr>"] h2 by blast
  have e: "Stop_wait (server_running\<lparr>stopChan := [True]\<rparr>) = None"
    using lifecycle_misuse_errors [of "server_running\<lparr>stopChan := [True]\<rparr>"] h2 by blast
  have f: "Stop_wait (loop_exit (the (loop_recv_stop (snd (Stop_signal server_running))))) =
       Some None"
    using lifecycle_misuse_errors [of server_running] h by blast
  from h a b c d e f show ?thesis by blast
qed

text \<open>
  Claim C5: every lifecycle misuse returns an error and changes nothing; in particular a
  second \<^verbatim>\<open>Stop\<close> on a running server returns \<^verbatim>\<open>Stop already signalled.\<close> at
  once while the first one waits. The code does that only while the first signal is
  still in the stop channel. When the loop has taken the signal out and has not exited
  yet, the server is still running and the first caller is still blocked, but the
  channel is empty again: a second \<^verbatim>\<open>Stop\<close> is not turned away, it puts a new
  signal into the channel and goes on to wait.
\<close>

theorem second_Stop_after_signal_taken:
  "IsRunning (the (loop_recv_stop (snd (Stop_signal server_running))))
   \<and> Stop_wait (the (loop_recv_stop (snd (Stop_signal server_running)))) = None
   \<and> fst (Stop_signal (the (loop_recv_stop (snd (Stop_signal server_running))))) = None
   \<and> stopChan (snd (Stop_signal (the (loop_recv_stop (snd (Stop_signal server_running)))))) =
       [True]"
  by (simp add: server_running_eq server_ok_def Stop_signal_def IsRunning_def Stop_wait_def
      Wait_def loop_recv_stop_def)

lemma stuck_reachable: "rtranclp step (started server_running) stuck"
proof -
  let ?s0 = "started server_running"
  let ?s1 = "?s0\<lparr>srv := server_running\<lparr>stopChan := [True]\<rparr>, caller := C_waiting\<rparr>"
  let ?s2 = "?s1\<lparr>polling := 0, notifying := 1\<rparr>"
  have "Stop_signal (srv ?s0) = (None, server_running\<lparr>stopChan := [True]\<rparr>)"
    by (simp add: started_def Stop_signal_def IsRunning_def server_running_eq server_ok_def)
  then have "step ?s0 (?s0\<lparr>srv := server_running\<lparr>stopChan := [True]\<rparr>,
                caller := (case None of None \<Rightarrow> C_waiting | Some e \<Rightarrow> C_returned (Some e))\<rparr>)"
    by (intro step.stop_call) (simp_all add: started_def)
  then have 1: "step ?s0 ?s1" by simp
  have "step ?s1 (?s1\<lparr>polling := polling ?s1 - 1, notifying := notifying ?s1 + 1\<rparr>)"
    by (intro step.poll_ready) (simp add: started_def)
  then have 2: "step ?s1 ?s2" by (simp add: started_def)
  have "loop_recv_stop (srv ?s2) = Some server_running"
    by (simp add: loop_recv_stop_def server_running_eq server_ok_def)
  then have "step ?s2 (?s2\<lparr>srv := server_running, loop := L_cancel_send\<rparr>)"
    by (intro step.loop_stop) (simp_all add: started_def)
  then have 3: "step ?s2 stuck" by (simp add: started_def stuck_def)
  from 1 2 3 show ?thesis by (meson rtranclp.rtrancl_into_rtrancl rtranclp.rtrancl_refl)
qed

lemma stuck_no_step: "\<not> step stuck s'"
proof
  assume "step stuck s'"
  then show False
    by (cases rule: step.cases)
       (simp_all add: stuck_def Stop_wait_def Wait_def server_running_eq server_ok_def)
qed

text \<open>
  Claim C7: after \<^verbatim>\<open>Start\<close> and then \<^verbatim>\<open>Stop\<close> the loop exits and \<^verbatim>\<open>Stop\<close>
  returns within about one poll interval, in every execution, also when the socket
  becomes ready during shutdown. The code has an execution in which neither ever
  happens. From the started server, \<^verbatim>\<open>Stop\<close> puts its signal and waits; the poller's
  \<^verbatim>\<open>zmq.Poll\<close> returns a ready socket, so the poller goes to send its notification;
  the loop takes the stop signal and goes to send on the cancel channel. Now the poller
  waits for the loop to receive the notification and the loop waits for the poller to
  receive the cancellation: no goroutine can take a step, the server is still running
  and \<^verbatim>\<open>Stop\<close> is still blocked.
\<close>

theorem Stop_can_block_forever:
  "rtranclp step (started server_running) stuck
   \<and> (\<forall>s'. \<not> step stuck s')
   \<and> caller stuck = C_waiting \<and> loop stuck = L_cancel_send \<and> IsRunning (srv stuck)"
  using stuck_reachable stuck_no_step
  by (simp add: stuck_def IsRunning_def server_running_eq server_ok_def)

end
